theory Spec2Isabelle
  imports Complex_Main "HOL-Library.Signed_Division"
begin

section \<open>Numbers\<close>

text \<open>
  Every TypeScript \<^verbatim>\<open>number\<close> that carries a coordinate, a speed, an angle or a time is
  modelled as an exact \<^typ>\<open>real\<close>: rounding, NaN and the infinities of IEEE doubles are
  outside the model. Counters and checkpoint indices (lap numbers, ticks, indices, the
  members of the passed set) are modelled as \<^typ>\<open>int\<close>.
\<close>

section \<open>Vector math (src/core/types/vector.ts)\<close>

record Vec2 =
  x :: real
  y :: real

definition vec2 :: "real \<Rightarrow> real \<Rightarrow> Vec2" where
  "vec2 a b = \<lparr>x = a, y = b\<rparr>"

definition VEC2_ZERO :: Vec2 where
  "VEC2_ZERO = vec2 0 0"

definition add :: "Vec2 \<Rightarrow> Vec2 \<Rightarrow> Vec2" where
  "add a b = vec2 (x a + x b) (y a + y b)"

definition subtract :: "Vec2 \<Rightarrow> Vec2 \<Rightarrow> Vec2" where
  "subtract a b = vec2 (x a - x b) (y a - y b)"

definition scale :: "Vec2 \<Rightarrow> real \<Rightarrow> Vec2" where
  "scale v scalar = vec2 (x v * scalar) (y v * scalar)"

definition dot :: "Vec2 \<Rightarrow> Vec2 \<Rightarrow> real" where
  "dot a b = x a * x b + y a * y b"

definition cross :: "Vec2 \<Rightarrow> Vec2 \<Rightarrow> real" where
  "cross a b = x a * y b - y a * x b"

definition fromAngle :: "real \<Rightarrow> Vec2" where
  "fromAngle angle = vec2 (cos angle) (sin angle)"

section \<open>Input commands (src/core/types/input.ts)\<close>

record InputCommand =
  throttle :: real
  brake :: real
  steering :: real

definition INPUT_NONE :: InputCommand where
  "INPUT_NONE = \<lparr>throttle = 0, brake = 0, steering = 0\<rparr>"

definition createInputCommand :: "real \<Rightarrow> real \<Rightarrow> real \<Rightarrow> InputCommand" where
  "createInputCommand thr brk steer =
     \<lparr>throttle = max 0 (min 1 thr),
      brake = max 0 (min 1 brk),
      steering = max (- 1) (min 1 steer)\<rparr>"

section \<open>Track types (src/core/types/track.ts)\<close>

record LineSegment =
  start :: Vec2
  end' :: Vec2

record Checkpoint =
  segment :: LineSegment
  index :: int

record Track =
  name :: string
  outerBoundary :: "LineSegment list"
  innerBoundary :: "LineSegment list"
  checkpoints :: "Checkpoint list"
  startPosition :: Vec2
  startRotation :: real

definition createLineSegment :: "Vec2 \<Rightarrow> Vec2 \<Rightarrow> LineSegment" where
  "createLineSegment s e = \<lparr>start = s, end' = e\<rparr>"

definition createCheckpoint :: "LineSegment \<Rightarrow> int \<Rightarrow> Checkpoint" where
  "createCheckpoint sg i = \<lparr>segment = sg, index = i\<rparr>"

section \<open>Collision primitives (src/core/game/collision.ts)\<close>

text \<open>
  \<^verbatim>\<open>lineSegmentIntersection\<close>: the parametric solve of the source, with \<open>None\<close> for
  \<^verbatim>\<open>null\<close>. The division is only reached when \<open>\<bar>rxs\<bar> \<ge> 1e-10\<close>.
\<close>

definition lineSegmentIntersection :: "LineSegment \<Rightarrow> LineSegment \<Rightarrow> Vec2 option" where
  "lineSegmentIntersection seg1 seg2 =
     (let p = start seg1;
          r = subtract (end' seg1) (start seg1);
          q = start seg2;
          s = subtract (end' seg2) (start seg2);
          rxs = cross r s;
          qmp = subtract q p;
          qmpxr = cross qmp r
      in if \<bar>rxs\<bar> < 1 / 10 ^ 10 then None
         else
           (let t = cross qmp s / rxs;
                u = qmpxr / rxs
            in if t \<ge> 0 \<and> t \<le> 1 \<and> u \<ge> 0 \<and> u \<le> 1
               then Some \<lparr>x = x p + t * x r, y = y p + t * y r\<rparr>
               else None))"

text \<open>
  \<^verbatim>\<open>pointInPolygon\<close>: the \<^verbatim>\<open>for\<close> loop over the vertex indices, with the running
  \<^verbatim>\<open>sign\<close> (\<open>None\<close> for \<^verbatim>\<open>null\<close>) and the early \<^verbatim>\<open>return false\<close>. The loop is only
  entered with indices below the polygon's length, so every read is in range.
\<close>

fun pointInPolygon_loop :: "Vec2 \<Rightarrow> Vec2 list \<Rightarrow> nat list \<Rightarrow> int option \<Rightarrow> bool" where
  "pointInPolygon_loop point polygon [] sign = True"
| "pointInPolygon_loop point polygon (i # rest) sign =
     (let n = length polygon;
          a = polygon ! i;
          b = polygon ! ((i + 1) mod n);
          edge = subtract b a;
          toPoint = subtract point a;
          crossProduct = cross edge toPoint
      in case sign of
           None \<Rightarrow>
             pointInPolygon_loop point polygon rest
               (Some (if crossProduct > 0 then 1 else - 1))
         | Some sg \<Rightarrow>
             if (if crossProduct > 0 then 1 else - 1) \<noteq> sg then False
             else pointInPolygon_loop point polygon rest sign)"

definition pointInPolygon :: "Vec2 \<Rightarrow> Vec2 list \<Rightarrow> bool" where
  "pointInPolygon point polygon =
     (let n = length polygon
      in if n < 3 then False
         else pointInPolygon_loop point polygon [0..<n] None)"

definition getRotatedRectCorners :: "Vec2 \<Rightarrow> real \<Rightarrow> real \<Rightarrow> real \<Rightarrow> Vec2 list" where
  "getRotatedRectCorners center width height rotation =
     (let c = cos rotation;
          s = sin rotation;
          hw = width / 2;
          hh = height / 2;
          localCorners =
            [\<lparr>x = - hw, y = - hh\<rparr>, \<lparr>x = hw, y = - hh\<rparr>, \<lparr>x = hw, y = hh\<rparr>, \<lparr>x = - hw, y = hh\<rparr>]
      in map (\<lambda>corner.
               \<lparr>x = x center + x corner * c - y corner * s,
                y = y center + x corner * s + y corner * c\<rparr>) localCorners)"

text \<open>
  \<^verbatim>\<open>rectangleIntersectsLine\<close>: the edge loop returns at the first edge whose
  intersection with the line is truthy (an object, that is not \<^verbatim>\<open>null\<close>); only when no
  edge is hit is the containment of \<^verbatim>\<open>line.start\<close> tested.
\<close>

fun rectangleIntersectsLine_loop :: "Vec2 list \<Rightarrow> LineSegment \<Rightarrow> nat list \<Rightarrow> bool" where
  "rectangleIntersectsLine_loop corners line [] = False"
| "rectangleIntersectsLine_loop corners line (i # rest) =
     (let edge = \<lparr>start = corners ! i, end' = corners ! ((i + 1) mod 4)\<rparr>
      in if lineSegmentIntersection edge line \<noteq> None then True
         else rectangleIntersectsLine_loop corners line rest)"

definition rectangleIntersectsLine ::
  "Vec2 \<Rightarrow> real \<Rightarrow> real \<Rightarrow> real \<Rightarrow> LineSegment \<Rightarrow> bool" where
  "rectangleIntersectsLine center width height rotation line =
     (let corners = getRotatedRectCorners center width height rotation
      in if rectangleIntersectsLine_loop corners line [0..<4] then True
         else if pointInPolygon (start line) corners then True
         else False)"

section \<open>Car state (src/core/types/car.ts)\<close>

record CarState =
  position :: Vec2
  rotation :: real
  velocity :: Vec2
  angularVelocity :: real

text \<open>\<^verbatim>\<open>Partial<CarState>\<close>: every field may be absent.\<close>

record CarStateUpdates =
  upd_position :: "Vec2 option"
  upd_rotation :: "real option"
  upd_velocity :: "Vec2 option"
  upd_angularVelocity :: "real option"

definition createCarState :: "Vec2 \<Rightarrow> real \<Rightarrow> CarState" where
  "createCarState pos rot =
     \<lparr>position = pos, rotation = rot, velocity = VEC2_ZERO, angularVelocity = 0\<rparr>"

definition updateCarState :: "CarState \<Rightarrow> CarStateUpdates \<Rightarrow> CarState" where
  "updateCarState st updates =
     \<lparr>position = (case upd_position updates of Some v \<Rightarrow> v | None \<Rightarrow> position st),
      rotation = (case upd_rotation updates of Some v \<Rightarrow> v | None \<Rightarrow> rotation st),
      velocity = (case upd_velocity updates of Some v \<Rightarrow> v | None \<Rightarrow> velocity st),
      angularVelocity =
        (case upd_angularVelocity updates of Some v \<Rightarrow> v | None \<Rightarrow> angularVelocity st)\<rparr>"

definition getCarForward :: "CarState \<Rightarrow> Vec2" where
  "getCarForward st = vec2 (cos (rotation st)) (sin (rotation st))"

definition getCarSpeed :: "CarState \<Rightarrow> real" where
  "getCarSpeed st =
     sqrt (x (velocity st) * x (velocity st) + y (velocity st) * y (velocity st))"

section \<open>Physics engine (src/core/physics/simple-physics.ts)\<close>

record PhysicsConfig =
  maxSpeed :: real
  maxReverseSpeed :: real
  acceleration :: real
  brakeAcceleration :: real
  friction :: real
  steeringRate :: real
  minSteeringSpeed :: real

definition calculateThrottleEffect :: "real \<Rightarrow> real \<Rightarrow> real \<Rightarrow> real \<Rightarrow> real" where
  "calculateThrottleEffect currentSpeed thr deltaTime accel =
     (if thr \<le> 0 then currentSpeed
      else currentSpeed + accel * thr * deltaTime)"

definition calculateBrakeEffect :: "real \<Rightarrow> real \<Rightarrow> real \<Rightarrow> real \<Rightarrow> real \<Rightarrow> real" where
  "calculateBrakeEffect currentSpeed brk deltaTime brakeAccel minSteering =
     (if brk \<le> 0 then currentSpeed
      else
        (let brakeForce = brakeAccel * brk * deltaTime
         in if currentSpeed > minSteering then max 0 (currentSpeed - brakeForce)
            else if currentSpeed < - minSteering then min 0 (currentSpeed + brakeForce)
            else
              (let reverseForce = brakeAccel * brk * deltaTime * (1 / 2)
               in currentSpeed - reverseForce)))"

definition calculateFrictionEffect :: "real \<Rightarrow> real \<Rightarrow> real \<Rightarrow> real \<Rightarrow> real \<Rightarrow> real" where
  "calculateFrictionEffect currentSpeed thr brk deltaTime fric =
     (if thr \<noteq> 0 \<or> brk \<noteq> 0 then currentSpeed
      else
        (let frictionForce = fric * deltaTime
         in if \<bar>currentSpeed\<bar> < frictionForce then 0
            else if currentSpeed > 0 then currentSpeed - frictionForce
            else currentSpeed + frictionForce))"

definition clampSpeed :: "real \<Rightarrow> real \<Rightarrow> real \<Rightarrow> real" where
  "clampSpeed speed maxSpd maxReverseSpd = max (- maxReverseSpd) (min maxSpd speed)"

text \<open>The defaults of \<^verbatim>\<open>GAME_CONFIG.CAR\<close> (src/config.ts).\<close>

definition createDefaultPhysicsConfig :: PhysicsConfig where
  "createDefaultPhysicsConfig =
     \<lparr>maxSpeed = 400, maxReverseSpeed = 150, acceleration = 300, brakeAcceleration = 400,
      friction = 100, steeringRate = 3, minSteeringSpeed = 10\<rparr>"

text \<open>
  The methods of \<^verbatim>\<open>SimplePhysicsEngine\<close> take the engine's configuration
  (\<^verbatim>\<open>this.config\<close>) as their first argument.
\<close>

definition getSignedSpeed :: "CarState \<Rightarrow> Vec2 \<Rightarrow> real" where
  "getSignedSpeed car forward =
     (let speed = getCarSpeed car
      in if speed < 1 / 1000 then 0
         else
           (let alignment = dot (velocity car) forward
            in if alignment \<ge> 0 then speed else - speed))"

definition updateRotation :: "PhysicsConfig \<Rightarrow> real \<Rightarrow> real \<Rightarrow> real \<Rightarrow> real \<Rightarrow> real" where
  "updateRotation config rot speed steer deltaTime =
     (if \<bar>speed\<bar> < minSteeringSpeed config then rot
      else
        (let speedFactor = min 1 (\<bar>speed\<bar> / (maxSpeed config * (1 / 2)));
             steeringAmount = steer * steeringRate config * speedFactor * deltaTime;
             direction = (if speed \<ge> 0 then 1 else - 1)
         in rot + steeringAmount * direction))"

definition updateSpeed :: "PhysicsConfig \<Rightarrow> real \<Rightarrow> real \<Rightarrow> real \<Rightarrow> real \<Rightarrow> real" where
  "updateSpeed config currentSpeed thr brk deltaTime =
     (let afterThrottle =
            calculateThrottleEffect currentSpeed thr deltaTime (acceleration config);
          afterBrake =
            calculateBrakeEffect afterThrottle brk deltaTime (brakeAcceleration config)
              (minSteeringSpeed config);
          afterFriction =
            calculateFrictionEffect afterBrake thr brk deltaTime (friction config)
      in clampSpeed afterFriction (maxSpeed config) (maxReverseSpeed config))"

definition update :: "PhysicsConfig \<Rightarrow> CarState \<Rightarrow> InputCommand \<Rightarrow> real \<Rightarrow> CarState" where
  "update config car input deltaTime =
     (let forward = fromAngle (rotation car);
          currentSpeed = getSignedSpeed car forward;
          newRotation = updateRotation config (rotation car) currentSpeed (steering input) deltaTime;
          newSpeed = updateSpeed config currentSpeed (throttle input) (brake input) deltaTime;
          newForward = fromAngle newRotation;
          newVelocity = scale newForward newSpeed;
          newPosition = add (position car) (scale newVelocity deltaTime)
      in updateCarState car
           \<lparr>upd_position = Some newPosition, upd_rotation = Some newRotation,
            upd_velocity = Some newVelocity, upd_angularVelocity = None\<rparr>)"

text \<open>
  The trajectory of repeated updates: the state after each tick of an input sequence,
  each tick consuming the previous tick's output (the way the game loop drives the engine).
\<close>

fun trajectory :: "PhysicsConfig \<Rightarrow> real \<Rightarrow> CarState \<Rightarrow> InputCommand list \<Rightarrow> CarState list" where
  "trajectory config deltaTime car [] = []"
| "trajectory config deltaTime car (input # inputs) =
     (let car' = update config car input deltaTime
      in car' # trajectory config deltaTime car' inputs)"

section \<open>Game state types (src/core/types/game.ts)\<close>

record LapProgress =
  lastCheckpointIndex :: int
  checkpointsPassed :: "int set"

record LapTime =
  lapNumber :: int
  timeMs :: real

record TimingState =
  raceStartTime :: real
  lapStartTime :: real
  lapTimes :: "LapTime list"
  currentLap :: int

datatype GameStatus = Countdown | Racing | Finished

record GameState =
  status :: GameStatus
  car :: CarState
  track :: Track
  lapProgress :: LapProgress
  timing :: TimingState
  totalLaps :: int
  tick :: int

text \<open>\<^verbatim>\<open>Partial<GameState>\<close>: every field may be absent.\<close>

record GameStateUpdates =
  upd_status :: "GameStatus option"
  upd_car :: "CarState option"
  upd_track :: "Track option"
  upd_lapProgress :: "LapProgress option"
  upd_timing :: "TimingState option"
  upd_totalLaps :: "int option"
  upd_tick :: "int option"

definition createLapProgress :: LapProgress where
  "createLapProgress = \<lparr>lastCheckpointIndex = 0, checkpointsPassed = {0}\<rparr>"

definition createTimingState :: "real \<Rightarrow> TimingState" where
  "createTimingState startTime =
     \<lparr>raceStartTime = startTime, lapStartTime = startTime, lapTimes = [], currentLap = 1\<rparr>"

definition updateGameState :: "GameState \<Rightarrow> GameStateUpdates \<Rightarrow> GameState" where
  "updateGameState st updates =
     \<lparr>status = (case upd_status updates of Some v \<Rightarrow> v | None \<Rightarrow> status st),
      car = (case upd_car updates of Some v \<Rightarrow> v | None \<Rightarrow> car st),
      track = (case upd_track updates of Some v \<Rightarrow> v | None \<Rightarrow> track st),
      lapProgress = (case upd_lapProgress updates of Some v \<Rightarrow> v | None \<Rightarrow> lapProgress st),
      timing = (case upd_timing updates of Some v \<Rightarrow> v | None \<Rightarrow> timing st),
      totalLaps = (case upd_totalLaps updates of Some v \<Rightarrow> v | None \<Rightarrow> totalLaps st),
      tick = (case upd_tick updates of Some v \<Rightarrow> v | None \<Rightarrow> tick st)\<rparr>"

section \<open>Lap tracker (src/core/game/lap-tracker.ts)\<close>

definition crossesCheckpoint :: "Vec2 \<Rightarrow> Vec2 \<Rightarrow> Checkpoint \<Rightarrow> bool" where
  "crossesCheckpoint oldPos newPos checkpoint =
     (let movement = \<lparr>start = oldPos, end' = newPos\<rparr>
      in lineSegmentIntersection movement (segment checkpoint) \<noteq> None)"

text \<open>
  The remainder operator \<^verbatim>\<open>%\<close> of JavaScript on integers: the result has the sign of the
  dividend (\<open>smod\<close>), and a zero divisor gives NaN (\<open>None\<close>), which is unequal to
  every number.
\<close>

definition js_rem :: "int \<Rightarrow> int \<Rightarrow> int option" where
  "js_rem a b = (if b = 0 then None else Some (a smod b))"

text \<open>
  \<^verbatim>\<open>processCheckpointCross\<close>. The result object \<^verbatim>\<open>{progress, timing, raceFinished}\<close> is
  the triple \<open>(progress, timing, raceFinished)\<close>. The source reads the ambient clock
  (\<^verbatim>\<open>performance.now()\<close>) once, in the lap-completing branch only; the argument \<open>now\<close> is
  the value that read returns. \<^verbatim>\<open>Array.from({length: totalCheckpoints - 1}, (_, i) => i + 1)\<close>
  is the list \<open>[1..totalCheckpoints - 1]\<close>, empty when \<open>totalCheckpoints \<le> 1\<close>.
\<close>

definition processCheckpointCross ::
  "real \<Rightarrow> LapProgress \<Rightarrow> TimingState \<Rightarrow> Checkpoint \<Rightarrow> int \<Rightarrow> int
     \<Rightarrow> LapProgress \<times> TimingState \<times> bool" where
  "processCheckpointCross now progress tm checkpoint totalCheckpoints totalLps =
     (let checkpointIndex = index checkpoint;
          raceFinished = False
      in if checkpointIndex = 0 then
           (let allOthersPassed =
                  list_all (\<lambda>i. i \<in> checkpointsPassed progress) [1..totalCheckpoints - 1]
            in if allOthersPassed then
                 (let lapTime = \<lparr>lapNumber = currentLap tm, timeMs = now - lapStartTime tm\<rparr>;
                      newLapTimes = lapTimes tm @ [lapTime];
                      raceFinished = (if currentLap tm \<ge> totalLps then True else raceFinished)
                  in (\<lparr>lastCheckpointIndex = 0, checkpointsPassed = {0}\<rparr>,
                      tm\<lparr>lapTimes := newLapTimes, lapStartTime := now,
                         currentLap := currentLap tm + 1\<rparr>,
                      raceFinished))
               else (progress, tm, raceFinished))
         else if checkpointIndex \<in> checkpointsPassed progress then (progress, tm, raceFinished)
         else
           (let expectedNext = js_rem (lastCheckpointIndex progress + 1) totalCheckpoints
            in if Some checkpointIndex \<noteq> expectedNext then (progress, tm, raceFinished)
               else
                 (let newCheckpointsPassed = insert checkpointIndex (checkpointsPassed progress)
                  in (\<lparr>lastCheckpointIndex = checkpointIndex,
                       checkpointsPassed = newCheckpointsPassed\<rparr>,
                      tm, raceFinished))))"

text \<open>
  \<^verbatim>\<open>updateLapProgress\<close>: the \<^verbatim>\<open>for ... of\<close> loop over the checkpoint list, threading
  \<^verbatim>\<open>newProgress\<close>, \<^verbatim>\<open>newTiming\<close> and \<^verbatim>\<open>raceFinished\<close>. The clock is a function of the
  loop position: \<open>clock i\<close> is what \<^verbatim>\<open>performance.now()\<close> returns while the \<open>i\<close>-th
  checkpoint of the list is processed. The result object
  \<^verbatim>\<open>{lapProgress, timing, raceFinished}\<close> is again a triple.
\<close>

fun updateLapProgress_loop ::
  "(nat \<Rightarrow> real) \<Rightarrow> int \<Rightarrow> Vec2 \<Rightarrow> Vec2 \<Rightarrow> int \<Rightarrow> nat \<Rightarrow> Checkpoint list
     \<Rightarrow> LapProgress \<times> TimingState \<times> bool \<Rightarrow> LapProgress \<times> TimingState \<times> bool" where
  "updateLapProgress_loop clock n oldPos newPos totalLps i [] acc = acc"
| "updateLapProgress_loop clock n oldPos newPos totalLps i (checkpoint # rest)
       (newProgress, newTiming, raceFinished) =
     (if crossesCheckpoint oldPos newPos checkpoint then
        updateLapProgress_loop clock n oldPos newPos totalLps (Suc i) rest
          (processCheckpointCross (clock i) newProgress newTiming checkpoint n totalLps)
      else
        updateLapProgress_loop clock n oldPos newPos totalLps (Suc i) rest
          (newProgress, newTiming, raceFinished))"

definition updateLapProgress ::
  "(nat \<Rightarrow> real) \<Rightarrow> LapProgress \<Rightarrow> TimingState \<Rightarrow> Checkpoint list \<Rightarrow> Vec2 \<Rightarrow> Vec2 \<Rightarrow> int
     \<Rightarrow> LapProgress \<times> TimingState \<times> bool" where
  "updateLapProgress clock progress tm cps oldPos newPos totalLps =
     updateLapProgress_loop clock (int (length cps)) oldPos newPos totalLps 0 cps
       (progress, tm, False)"

section \<open>Game state factory (src/core/game/game-state.ts)\<close>

text \<open>\<^verbatim>\<open>createInitialGameState\<close>; \<open>now\<close> is the reading of \<^verbatim>\<open>performance.now()\<close>, and the
  number of laps is \<^verbatim>\<open>GAME_CONFIG.TOTAL_LAPS\<close>.\<close>

definition createInitialGameState :: "real \<Rightarrow> Track \<Rightarrow> GameState" where
  "createInitialGameState now trk =
     \<lparr>status = Countdown,
      car = createCarState (startPosition trk) (startRotation trk),
      track = trk,
      lapProgress = createLapProgress,
      timing = createTimingState now,
      totalLaps = 3,
      tick = 0\<rparr>"

section \<open>Game loop (src/core/game/game-loop.ts)\<close>

text \<open>
  The part of a \<^verbatim>\<open>GameLoop\<close> object that \<^verbatim>\<open>step\<close> reads or writes: the current state,
  the injected physics engine (its \<^verbatim>\<open>update\<close> method), the tick duration, and the
  state-change observer. The observer's effect is recorded as the list of states it was
  called with; \<open>onStateChange\<close> says whether a callback is registered.
\<close>

record GameLoop =
  state :: GameState
  physics :: "CarState \<Rightarrow> InputCommand \<Rightarrow> real \<Rightarrow> CarState"
  tickDuration :: real
  onStateChange :: bool
  notified :: "GameState list"

text \<open>The constructor: the engine defaults to a \<^verbatim>\<open>SimplePhysicsEngine\<close> with the default
  configuration, the tick duration is \<^verbatim>\<open>GAME_CONFIG.TICK_DURATION\<close>.\<close>

definition newGameLoop ::
  "GameState \<Rightarrow> (CarState \<Rightarrow> InputCommand \<Rightarrow> real \<Rightarrow> CarState) option \<Rightarrow> GameLoop" where
  "newGameLoop initialState phys =
     \<lparr>state = initialState,
      physics = (case phys of Some e \<Rightarrow> e | None \<Rightarrow> update createDefaultPhysicsConfig),
      tickDuration = 1 / 60,
      onStateChange = False,
      notified = []\<rparr>"

text \<open>
  \<^verbatim>\<open>step\<close> returns the state it returns in the source together with the game loop object
  after the call.
\<close>

definition step :: "(nat \<Rightarrow> real) \<Rightarrow> GameLoop \<Rightarrow> InputCommand \<Rightarrow> GameState \<times> GameLoop" where
  "step clock gl input =
     (if status (state gl) \<noteq> Racing then (state gl, gl)
      else
        (let newCar = physics gl (car (state gl)) input (tickDuration gl);
             (lp, tm, raceFinished) =
               updateLapProgress clock (lapProgress (state gl)) (timing (state gl))
                 (checkpoints (track (state gl))) (position (car (state gl)))
                 (position newCar) (totalLaps (state gl));
             newState =
               updateGameState (state gl)
                 \<lparr>upd_status = Some (if raceFinished then Finished else Racing),
                  upd_car = Some newCar,
                  upd_track = None,
                  upd_lapProgress = Some lp,
                  upd_timing = Some tm,
                  upd_totalLaps = None,
                  upd_tick = Some (tick (state gl) + 1)\<rparr>
         in (newState,
             gl\<lparr>state := newState,
                notified := (if onStateChange gl then notified gl @ [newState]
                             else notified gl)\<rparr>)))"

text \<open>A sequence of \<^verbatim>\<open>step\<close> calls, each with its own clock and input, on the same
  game loop object (what the frame loop and a headless driver do).\<close>

fun steps :: "GameLoop \<Rightarrow> ((nat \<Rightarrow> real) \<times> InputCommand) list \<Rightarrow> GameLoop" where
  "steps gl [] = gl"
| "steps gl ((clock, input) # rest) = steps (snd (step clock gl input)) rest"

section \<open>Fixtures of the test suites\<close>

text \<open>The track and the states used by the lap tracker's tests
  (src/core/game/lap-tracker.test.ts), and the configuration of the physics tests
  (src/core/physics/simple-physics.test.ts).\<close>

definition test_checkpoints :: "Checkpoint list" where
  "test_checkpoints =
     [createCheckpoint (createLineSegment (vec2 0 0) (vec2 0 100)) 0,
      createCheckpoint (createLineSegment (vec2 100 0) (vec2 100 100)) 1,
      createCheckpoint (createLineSegment (vec2 200 0) (vec2 200 100)) 2]"

definition initialProgress :: LapProgress where
  "initialProgress = \<lparr>lastCheckpointIndex = 0, checkpointsPassed = {0}\<rparr>"

definition initialTiming :: TimingState where
  "initialTiming = \<lparr>raceStartTime = 0, lapStartTime = 0, lapTimes = [], currentLap = 1\<rparr>"

definition progressAllPassed :: LapProgress where
  "progressAllPassed = \<lparr>lastCheckpointIndex = 2, checkpointsPassed = {0, 1, 2}\<rparr>"

definition timingLastLap :: TimingState where
  "timingLastLap =
     \<lparr>raceStartTime = 0, lapStartTime = 4000,
      lapTimes = [\<lparr>lapNumber = 1, timeMs = 2000\<rparr>, \<lparr>lapNumber = 2, timeMs = 2000\<rparr>],
      currentLap = 3\<rparr>"

text \<open>A track over the test checkpoints, for states of the game loop.\<close>

definition test_track :: Track where
  "test_track =
     \<lparr>name = ''test'', outerBoundary = [], innerBoundary = [],
      checkpoints = test_checkpoints, startPosition = vec2 50 50, startRotation = 0\<rparr>"

text \<open>A racing game state on the final lap with every checkpoint passed, the car just
  before the start/finish line; and a test double of the \<^verbatim>\<open>PhysicsEngine\<close> interface
  whose \<^verbatim>\<open>update\<close> places the car at a given position.\<close>

definition final_lap_state :: GameState where
  "final_lap_state =
     \<lparr>status = Racing, car = createCarState (vec2 (- 10) 50) 0, track = test_track,
      lapProgress = progressAllPassed, timing = timingLastLap, totalLaps = 3, tick = 0\<rparr>"

definition teleportEngine :: "Vec2 \<Rightarrow> CarState \<Rightarrow> InputCommand \<Rightarrow> real \<Rightarrow> CarState" where
  "teleportEngine target c input deltaTime = c\<lparr>position := target\<rparr>"

text \<open>A car creeping forward at 0.0005 pixels per second.\<close>

definition slow_car :: CarState where
  "slow_car = \<lparr>position = vec2 0 0, rotation = 0, velocity = vec2 (1 / 2000) 0,
                angularVelocity = 0\<rparr>"

definition testConfig :: PhysicsConfig where
  "testConfig =
     \<lparr>maxSpeed = 100, maxReverseSpeed = 50, acceleration = 50, brakeAcceleration = 100,
      friction = 10, steeringRate = 2, minSteeringSpeed = 5\<rparr>"

section \<open>Properties of the input constructor\<close>

text \<open>
  C10. Whatever real arguments it is given, \<^verbatim>\<open>createInputCommand\<close> returns the command
  whose throttle and brake are the arguments clamped into \<open>[0, 1]\<close> (0 below 0, 1 above 1,
  the argument itself in between) and whose steering is the argument clamped into
  \<open>[-1, 1]\<close>; so the three fields always lie in the documented ranges.
\<close>

theorem createInputCommand_clamps:
  "throttle (createInputCommand thr brk steer) = (if thr < 0 then 0 else if thr > 1 then 1 else thr)
   \<and> brake (createInputCommand thr brk steer) = (if brk < 0 then 0 else if brk > 1 then 1 else brk)
   \<and> steering (createInputCommand thr brk steer)
       = (if steer < - 1 then - 1 else if steer > 1 then 1 else steer)
   \<and> 0 \<le> throttle (createInputCommand thr brk steer)
   \<and> throttle (createInputCommand thr brk steer) \<le> 1
   \<and> 0 \<le> brake (createInputCommand thr brk steer)
   \<and> brake (createInputCommand thr brk steer) \<le> 1
   \<and> - 1 \<le> steering (createInputCommand thr brk steer)
   \<and> steering (createInputCommand thr brk steer) \<le> 1"
proof -
  have t: "max 0 (min 1 thr) = (if thr < 0 then 0 else if thr > 1 then 1 else thr)"
    and b: "max 0 (min 1 brk) = (if brk < 0 then 0 else if brk > 1 then 1 else brk)"
    and s: "max (- 1) (min 1 steer) = (if steer < - 1 then - 1 else if steer > 1 then 1 else steer)"
    by (simp_all add: max_def min_def)
  have fields: "throttle (createInputCommand thr brk steer) = max 0 (min 1 thr)"
    "brake (createInputCommand thr brk steer) = max 0 (min 1 brk)"
    "steering (createInputCommand thr brk steer) = max (- 1) (min 1 steer)"
    by (simp_all add: createInputCommand_def)
  show ?thesis unfolding fields t b s by simp
qed

section \<open>Properties of segment intersection\<close>

lemma solve_point:
  fixes px py rx ry qx qy sx sy :: real
  assumes nz: "rx * sy - ry * sx \<noteq> 0"
  shows "px + ((qx - px) * sy - (qy - py) * sx) / (rx * sy - ry * sx) * rx
       = qx + ((qx - px) * ry - (qy - py) * rx) / (rx * sy - ry * sx) * sx"
    and "py + ((qx - px) * sy - (qy - py) * sx) / (rx * sy - ry * sx) * ry
       = qy + ((qx - px) * ry - (qy - py) * rx) / (rx * sy - ry * sx) * sy"
  using nz by (simp_all add: field_simps)

lemma swap_params:
  fixes px py rx ry qx qy sx sy :: real
  shows "((px - qx) * ry - (py - qy) * rx) / (sx * ry - sy * rx)
       = ((qx - px) * ry - (qy - py) * rx) / (rx * sy - ry * sx)"
    and "((px - qx) * sy - (py - qy) * sx) / (sx * ry - sy * rx)
       = ((qx - px) * sy - (qy - py) * sx) / (rx * sy - ry * sx)"
proof -
  have d: "sx * ry - sy * rx = - (rx * sy - ry * sx)" by (simp add: algebra_simps)
  have n1: "(px - qx) * ry - (py - qy) * rx = - ((qx - px) * ry - (qy - py) * rx)"
    by (simp add: algebra_simps)
  have n2: "(px - qx) * sy - (py - qy) * sx = - ((qx - px) * sy - (qy - py) * sx)"
    by (simp add: algebra_simps)
  show "((px - qx) * ry - (py - qy) * rx) / (sx * ry - sy * rx)
       = ((qx - px) * ry - (qy - py) * rx) / (rx * sy - ry * sx)"
    by (metis d n1 minus_divide_divide)
  show "((px - qx) * sy - (py - qy) * sx) / (sx * ry - sy * rx)
       = ((qx - px) * sy - (qy - py) * sx) / (rx * sy - ry * sx)"
    by (metis d n2 minus_divide_divide)
qed

lemma abs_swap:
  fixes rx ry sx sy :: real
  shows "\<bar>sx * ry - sy * rx\<bar> = \<bar>rx * sy - ry * sx\<bar>"
proof -
  have "sx * ry - sy * rx = - (rx * sy - ry * sx)" by (simp add: algebra_simps)
  then show ?thesis by (metis abs_minus_cancel)
qed

text \<open>
  C6. \<^verbatim>\<open>lineSegmentIntersection\<close> returns a point exactly when the cross product of the
  two direction vectors has magnitude at least \<open>1e-10\<close> and both line parameters \<open>t\<close> and
  \<open>u\<close> lie in \<open>[0, 1]\<close> (bounds included); the point is then
  \<open>seg1.start + t * (seg1.end - seg1.start)\<close>. Below the threshold the result is none,
  also for collinear overlapping segments (second conjunct); segments that only touch at
  an endpoint do intersect (third conjunct).
\<close>

theorem lineSegmentIntersection_characterisation:
  "lineSegmentIntersection seg1 seg2 =
     (let r = subtract (end' seg1) (start seg1);
          s = subtract (end' seg2) (start seg2);
          rxs = cross r s;
          t = cross (subtract (start seg2) (start seg1)) s / rxs;
          u = cross (subtract (start seg2) (start seg1)) r / rxs
      in if \<bar>rxs\<bar> \<ge> 1 / 10 ^ 10 \<and> 0 \<le> t \<and> t \<le> 1 \<and> 0 \<le> u \<and> u \<le> 1
         then Some (add (start seg1) (scale r t))
         else None)
   \<and> lineSegmentIntersection \<lparr>start = vec2 0 0, end' = vec2 2 0\<rparr>
         \<lparr>start = vec2 1 0, end' = vec2 3 0\<rparr> = None
   \<and> lineSegmentIntersection \<lparr>start = vec2 0 0, end' = vec2 5 5\<rparr>
         \<lparr>start = vec2 5 5, end' = vec2 10 0\<rparr> = Some (vec2 5 5)"
proof (intro conjI)
  show "lineSegmentIntersection seg1 seg2 =
     (let r = subtract (end' seg1) (start seg1);
          s = subtract (end' seg2) (start seg2);
          rxs = cross r s;
          t = cross (subtract (start seg2) (start seg1)) s / rxs;
          u = cross (subtract (start seg2) (start seg1)) r / rxs
      in if \<bar>rxs\<bar> \<ge> 1 / 10 ^ 10 \<and> 0 \<le> t \<and> t \<le> 1 \<and> 0 \<le> u \<and> u \<le> 1
         then Some (add (start seg1) (scale r t))
         else None)"
    by (auto simp add: lineSegmentIntersection_def Let_def add_def scale_def vec2_def
          subtract_def mult.commute)
  show "lineSegmentIntersection \<lparr>start = vec2 0 0, end' = vec2 2 0\<rparr>
         \<lparr>start = vec2 1 0, end' = vec2 3 0\<rparr> = None"
    by (simp add: lineSegmentIntersection_def Let_def cross_def subtract_def vec2_def)
  show "lineSegmentIntersection \<lparr>start = vec2 0 0, end' = vec2 5 5\<rparr>
         \<lparr>start = vec2 5 5, end' = vec2 10 0\<rparr> = Some (vec2 5 5)"
    by (simp add: lineSegmentIntersection_def Let_def cross_def subtract_def vec2_def)
qed

text \<open>
  C7. Intersection is symmetric in its two segments: in exact arithmetic
  \<^verbatim>\<open>lineSegmentIntersection(A, B)\<close> and \<^verbatim>\<open>lineSegmentIntersection(B, A)\<close> are the same
  result, so they agree on existence and, when a point is returned, on the point.
\<close>

theorem lineSegmentIntersection_symmetric:
  "lineSegmentIntersection A B = lineSegmentIntersection B A"
proof -
  obtain px py rx ry qx qy sx sy where
    defs: "px = x (start A)" "py = y (start A)" "qx = x (start B)" "qy = y (start B)"
       "rx = x (end' A) - x (start A)" "ry = y (end' A) - y (start A)"
       "sx = x (end' B) - x (start B)" "sy = y (end' B) - y (start B)"
    by blast
  have L: "lineSegmentIntersection A B =
      (if \<bar>rx * sy - ry * sx\<bar> < 1 / 10 ^ 10 then None
       else if ((qx - px) * sy - (qy - py) * sx) / (rx * sy - ry * sx) \<ge> 0
             \<and> ((qx - px) * sy - (qy - py) * sx) / (rx * sy - ry * sx) \<le> 1
             \<and> ((qx - px) * ry - (qy - py) * rx) / (rx * sy - ry * sx) \<ge> 0
             \<and> ((qx - px) * ry - (qy - py) * rx) / (rx * sy - ry * sx) \<le> 1
            then Some \<lparr>x = px + ((qx - px) * sy - (qy - py) * sx) / (rx * sy - ry * sx) * rx,
                       y = py + ((qx - px) * sy - (qy - py) * sx) / (rx * sy - ry * sx) * ry\<rparr>
            else None)"
    by (simp add: lineSegmentIntersection_def Let_def cross_def subtract_def vec2_def defs)
  have R: "lineSegmentIntersection B A =
      (if \<bar>sx * ry - sy * rx\<bar> < 1 / 10 ^ 10 then None
       else if ((px - qx) * ry - (py - qy) * rx) / (sx * ry - sy * rx) \<ge> 0
             \<and> ((px - qx) * ry - (py - qy) * rx) / (sx * ry - sy * rx) \<le> 1
             \<and> ((px - qx) * sy - (py - qy) * sx) / (sx * ry - sy * rx) \<ge> 0
             \<and> ((px - qx) * sy - (py - qy) * sx) / (sx * ry - sy * rx) \<le> 1
            then Some \<lparr>x = qx + ((px - qx) * ry - (py - qy) * rx) / (sx * ry - sy * rx) * sx,
                       y = qy + ((px - qx) * ry - (py - qy) * rx) / (sx * ry - sy * rx) * sy\<rparr>
            else None)"
    by (simp add: lineSegmentIntersection_def Let_def cross_def subtract_def vec2_def defs)
  have A1: "\<bar>sx * ry - sy * rx\<bar> = \<bar>rx * sy - ry * sx\<bar>" by (rule abs_swap)
  have A2: "((px - qx) * ry - (py - qy) * rx) / (sx * ry - sy * rx)
       = ((qx - px) * ry - (qy - py) * rx) / (rx * sy - ry * sx)" by (rule swap_params(1))
  have A3: "((px - qx) * sy - (py - qy) * sx) / (sx * ry - sy * rx)
       = ((qx - px) * sy - (qy - py) * sx) / (rx * sy - ry * sx)" by (rule swap_params(2))
  show ?thesis
  proof (cases "\<bar>rx * sy - ry * sx\<bar> < 1 / 10 ^ 10")
    case True
    then show ?thesis by (simp only: L R A1 if_True)
  next
    case False
    then have nz: "rx * sy - ry * sx \<noteq> 0" by auto
    note sp = solve_point[OF nz, where px=px and py=py and qx=qx and qy=qy]
    show ?thesis
      by (simp only: L R A1 A2 A3 False if_False sp conj_ac)
  qed
qed

section \<open>Properties of the lap tracker\<close>

lemma js_rem_succ_ne:
  assumes "a + 1 \<noteq> 0"
  shows "js_rem a n \<noteq> Some (a + 1)"
proof (cases "n = 0")
  case True
  then show ?thesis by (simp add: js_rem_def)
next
  case False
  show ?thesis
  proof (cases "a \<ge> 0")
    case True
    then have "a smod n = a mod \<bar>n\<bar>" by (simp add: signed_modulo_int_def sgn_if)
    moreover have "a mod \<bar>n\<bar> \<le> a" using True by (simp add: zmod_le_nonneg_dividend)
    ultimately show ?thesis using False by (simp add: js_rem_def)
  next
    case neg: False
    then have e: "a smod n = - (\<bar>a\<bar> mod \<bar>n\<bar>)" by (simp add: signed_modulo_int_def sgn_if)
    show ?thesis
    proof
      assume "js_rem a n = Some (a + 1)"
      then have h: "- (\<bar>a\<bar> mod \<bar>n\<bar>) = a + 1" using False e by (simp add: js_rem_def)
      then have m: "\<bar>a\<bar> mod \<bar>n\<bar> = \<bar>a\<bar> - 1" using neg by simp
      have npos: "\<bar>n\<bar> > 0" using False by simp
      have "(\<bar>a\<bar> - \<bar>a\<bar> mod \<bar>n\<bar>) mod \<bar>n\<bar> = 0" by (simp add: minus_mod_eq_mult_div)
      then have "1 mod \<bar>n\<bar> = 0" using m by simp
      then have "\<bar>n\<bar> = 1" using npos
        by (metis abs_zmult_eq_1 mod_0_imp_dvd dvd_def mult.commute zdvd1_eq abs_abs abs_of_pos)
      then have "\<bar>a\<bar> mod \<bar>n\<bar> = 0" by simp
      then have "a + 1 = 0" using h by simp
      then show False using assms by simp
    qed
  qed
qed

text \<open>
  C2. Processing a crossing of a checkpoint whose index \<open>i\<close> is not zero leaves progress
  and timing unchanged (and signals no finish) when \<open>i\<close> is already in the passed set,
  and likewise when \<open>i\<close> is not \<open>(lastCheckpointIndex + 1) % checkpointCount\<close>; in
  particular crossing checkpoint \<open>k + 2\<close> while the last checkpoint is \<open>k\<close> changes nothing,
  whatever the number of checkpoints. In the remaining case \<open>i\<close> is added to the passed
  set and becomes \<open>lastCheckpointIndex\<close>, with timing untouched.
\<close>

theorem processCheckpointCross_nonzero:
  assumes nz: "index cp \<noteq> 0"
  shows "(index cp \<in> checkpointsPassed pr \<longrightarrow>
           processCheckpointCross now pr tm cp n laps = (pr, tm, False))
       \<and> (Some (index cp) \<noteq> js_rem (lastCheckpointIndex pr + 1) n \<longrightarrow>
           processCheckpointCross now pr tm cp n laps = (pr, tm, False))
       \<and> (index cp = lastCheckpointIndex pr + 2 \<longrightarrow>
           processCheckpointCross now pr tm cp n laps = (pr, tm, False))
       \<and> (index cp \<notin> checkpointsPassed pr
            \<and> Some (index cp) = js_rem (lastCheckpointIndex pr + 1) n \<longrightarrow>
           processCheckpointCross now pr tm cp n laps =
             (\<lparr>lastCheckpointIndex = index cp,
               checkpointsPassed = insert (index cp) (checkpointsPassed pr)\<rparr>, tm, False))"
proof (intro conjI impI)
  show "processCheckpointCross now pr tm cp n laps = (pr, tm, False)"
    if "index cp \<in> checkpointsPassed pr"
    using nz that by (simp add: processCheckpointCross_def Let_def)
  show "processCheckpointCross now pr tm cp n laps = (pr, tm, False)"
    if "Some (index cp) \<noteq> js_rem (lastCheckpointIndex pr + 1) n"
    using nz that by (simp add: processCheckpointCross_def Let_def)
  show "processCheckpointCross now pr tm cp n laps = (pr, tm, False)"
    if h: "index cp = lastCheckpointIndex pr + 2"
  proof -
    have "lastCheckpointIndex pr + 1 + 1 \<noteq> 0" using nz h by simp
    from js_rem_succ_ne[OF this, of n]
    have "js_rem (lastCheckpointIndex pr + 1) n \<noteq> Some (lastCheckpointIndex pr + 2)"
      by (simp add: add.commute)
    then have "Some (index cp) \<noteq> js_rem (lastCheckpointIndex pr + 1) n"
      unfolding h by metis
    then show ?thesis using nz by (simp add: processCheckpointCross_def Let_def)
  qed
  show "processCheckpointCross now pr tm cp n laps =
             (\<lparr>lastCheckpointIndex = index cp,
               checkpointsPassed = insert (index cp) (checkpointsPassed pr)\<rparr>, tm, False)"
    if "index cp \<notin> checkpointsPassed pr
            \<and> Some (index cp) = js_rem (lastCheckpointIndex pr + 1) n"
    using nz that by (simp add: processCheckpointCross_def Let_def)
qed

lemmas fixture_defs = test_checkpoints_def initialProgress_def initialTiming_def
  progressAllPassed_def timingLastLap_def createCheckpoint_def createLineSegment_def vec2_def

text \<open>The three cases at the fixtures of the test suite: an already passed checkpoint,
  checkpoint 2 crossed before checkpoint 1, and the expected next checkpoint.\<close>

theorem processCheckpointCross_nonzero_witness:
  "index (test_checkpoints ! 1) \<noteq> 0
   \<and> index (test_checkpoints ! 1) \<in> checkpointsPassed progressAllPassed
   \<and> processCheckpointCross 0 progressAllPassed initialTiming (test_checkpoints ! 1) 3 3
       = (progressAllPassed, initialTiming, False)
   \<and> index (test_checkpoints ! 2) = lastCheckpointIndex initialProgress + 2
   \<and> processCheckpointCross 0 initialProgress initialTiming (test_checkpoints ! 2) 3 3
       = (initialProgress, initialTiming, False)
   \<and> processCheckpointCross 0 initialProgress initialTiming (test_checkpoints ! 1) 3 3
       = (\<lparr>lastCheckpointIndex = 1, checkpointsPassed = {1, 0}\<rparr>, initialTiming, False)"
  using processCheckpointCross_nonzero [of "test_checkpoints ! 1" progressAllPassed 0 initialTiming 3 3]
    processCheckpointCross_nonzero [of "test_checkpoints ! 2" initialProgress 0 initialTiming 3 3]
    processCheckpointCross_nonzero [of "test_checkpoints ! 1" initialProgress 0 initialTiming 3 3]
  by (simp add: fixture_defs js_rem_def signed_modulo_int_def)

lemma updateLapProgress_loop_not_crossed:
  "\<forall>c \<in> set cs. \<not> crossesCheckpoint oldPos newPos c \<Longrightarrow>
   updateLapProgress_loop clock n oldPos newPos laps i cs acc = acc"
proof (induction cs arbitrary: i)
  case Nil
  then show ?case by simp
next
  case (Cons c cs)
  then show ?case by (cases acc) simp
qed

lemma updateLapProgress_loop_append:
  "updateLapProgress_loop clock n oldPos newPos laps i (as @ bs) acc =
   updateLapProgress_loop clock n oldPos newPos laps (i + length as) bs
     (updateLapProgress_loop clock n oldPos newPos laps i as acc)"
proof (induction as arbitrary: i acc)
  case Nil
  then show ?case by simp
next
  case (Cons a as)
  obtain p t f where acc: "acc = (p, t, f)" by (cases acc) auto
  show ?case unfolding acc using Cons.IH by simp
qed

lemma complete_lap:
  assumes "index c0 = 0" and "\<forall>i \<in> {1..n - 1}. i \<in> checkpointsPassed pr"
  shows "processCheckpointCross now pr tm c0 n laps =
     (\<lparr>lastCheckpointIndex = 0, checkpointsPassed = {0}\<rparr>,
      tm\<lparr>lapTimes := lapTimes tm @ [\<lparr>lapNumber = currentLap tm, timeMs = now - lapStartTime tm\<rparr>],
         lapStartTime := now, currentLap := currentLap tm + 1\<rparr>,
      currentLap tm \<ge> laps)"
  using assms by (simp add: processCheckpointCross_def Let_def list_all_iff)

text \<open>
  The single-crossing path. When the passed set contains every index \<open>1..N-1\<close> and the
  motion segment crosses a checkpoint of index 0 and no other checkpoint of the list,
  \<^verbatim>\<open>updateLapProgress\<close> appends the lap record, resets progress, increments
  \<open>currentLap\<close>, sets \<open>lapStartTime\<close> to the clock reading and reports \<open>raceFinished\<close>
  exactly when the pre-increment \<open>currentLap\<close> is at least \<open>totalLaps\<close>.
\<close>

lemma updateLapProgress_completes_lap:
  assumes cps: "cps = pre @ [c0] @ post"
      and idx: "index c0 = 0"
      and cross: "crossesCheckpoint oldPos newPos c0"
      and others: "\<forall>c \<in> set pre \<union> set post. \<not> crossesCheckpoint oldPos newPos c"
      and passed: "\<forall>i \<in> {1..int (length cps) - 1}. i \<in> checkpointsPassed progress"
  shows "updateLapProgress clock progress tm cps oldPos newPos laps =
     (\<lparr>lastCheckpointIndex = 0, checkpointsPassed = {0}\<rparr>,
      tm\<lparr>lapTimes := lapTimes tm @
            [\<lparr>lapNumber = currentLap tm, timeMs = clock (length pre) - lapStartTime tm\<rparr>],
         lapStartTime := clock (length pre),
         currentLap := currentLap tm + 1\<rparr>,
      currentLap tm \<ge> laps)"
proof -
  have pre: "\<forall>c \<in> set pre. \<not> crossesCheckpoint oldPos newPos c" using others by auto
  have post: "\<forall>c \<in> set post. \<not> crossesCheckpoint oldPos newPos c" using others by auto
  have "updateLapProgress clock progress tm cps oldPos newPos laps =
      updateLapProgress_loop clock (int (length cps)) oldPos newPos laps (length pre) (c0 # post)
        (progress, tm, False)"
    unfolding updateLapProgress_def
    by (subst cps, subst updateLapProgress_loop_append) (simp add: updateLapProgress_loop_not_crossed[OF pre])
  also have "\<dots> = processCheckpointCross (clock (length pre)) progress tm c0 (int (length cps)) laps"
    using cross by (simp add: updateLapProgress_loop_not_crossed[OF post])
  also have "\<dots> = (\<lparr>lastCheckpointIndex = 0, checkpointsPassed = {0}\<rparr>,
      tm\<lparr>lapTimes := lapTimes tm @
            [\<lparr>lapNumber = currentLap tm, timeMs = clock (length pre) - lapStartTime tm\<rparr>],
         lapStartTime := clock (length pre),
         currentLap := currentLap tm + 1\<rparr>,
      currentLap tm \<ge> laps)"
    by (rule complete_lap[OF idx passed])
  finally show ?thesis .
qed

lemma cross_fixture:
  "crossesCheckpoint (vec2 (- 10) 50) (vec2 10 50) (test_checkpoints ! 0)"
  "\<not> crossesCheckpoint (vec2 (- 10) 50) (vec2 10 50) (test_checkpoints ! 1)"
  "\<not> crossesCheckpoint (vec2 (- 10) 50) (vec2 10 50) (test_checkpoints ! 2)"
  "crossesCheckpoint (vec2 (- 10) 50) (vec2 110 50) (test_checkpoints ! 0)"
  "crossesCheckpoint (vec2 (- 10) 50) (vec2 110 50) (test_checkpoints ! 1)"
  "\<not> crossesCheckpoint (vec2 (- 10) 50) (vec2 110 50) (test_checkpoints ! 2)"
  by (simp_all add: crossesCheckpoint_def lineSegmentIntersection_def Let_def cross_def
      subtract_def fixture_defs)


text \<open>The test "signals race finished on final lap completion" of the suite.\<close>

lemma updateLapProgress_final_lap_test:
  "crossesCheckpoint (vec2 (- 10) 50) (vec2 10 50) (test_checkpoints ! 0)
   \<and> updateLapProgress (\<lambda>i. 5000) progressAllPassed timingLastLap test_checkpoints
        (vec2 (- 10) 50) (vec2 10 50) 3 =
      (\<lparr>lastCheckpointIndex = 0, checkpointsPassed = {0}\<rparr>,
       \<lparr>raceStartTime = 0, lapStartTime = 5000,
        lapTimes = [\<lparr>lapNumber = 1, timeMs = 2000\<rparr>, \<lparr>lapNumber = 2, timeMs = 2000\<rparr>,
                    \<lparr>lapNumber = 3, timeMs = 1000\<rparr>],
        currentLap = 4\<rparr>,
       True)"
proof -
  have cps: "test_checkpoints = [] @ [test_checkpoints ! 0] @ [test_checkpoints ! 1, test_checkpoints ! 2]"
    by (simp add: test_checkpoints_def)
  have idx: "index (test_checkpoints ! 0) = 0"
    by (simp add: test_checkpoints_def createCheckpoint_def)
  have others: "\<forall>c \<in> set [] \<union> set [test_checkpoints ! 1, test_checkpoints ! 2].
      \<not> crossesCheckpoint (vec2 (- 10) 50) (vec2 10 50) c"
    using cross_fixture(2,3) by simp
  have passed: "\<forall>i \<in> {1..int (length test_checkpoints) - 1}. i \<in> checkpointsPassed progressAllPassed"
    by (auto simp add: test_checkpoints_def progressAllPassed_def)
  from updateLapProgress_completes_lap [OF cps idx cross_fixture(1) others passed, of "\<lambda>i. 5000" timingLastLap 3]
  show ?thesis using cross_fixture(1) by (simp add: timingLastLap_def)
qed

text \<open>
  The same final-lap state with a motion that crosses checkpoints 0 and 1: the lap is
  recorded, the crossing of checkpoint 1 is processed next, and the result carries
  \<open>raceFinished = false\<close>.
\<close>

lemma updateLapProgress_two_crossings:
  "index (test_checkpoints ! 0) = 0
   \<and> crossesCheckpoint (vec2 (- 10) 50) (vec2 110 50) (test_checkpoints ! 0)
   \<and> {1, 2} \<subseteq> checkpointsPassed progressAllPassed
   \<and> currentLap timingLastLap \<ge> 3
   \<and> updateLapProgress (\<lambda>i. 5000) progressAllPassed timingLastLap test_checkpoints
        (vec2 (- 10) 50) (vec2 110 50) 3 =
      (\<lparr>lastCheckpointIndex = 1, checkpointsPassed = {1, 0}\<rparr>,
       \<lparr>raceStartTime = 0, lapStartTime = 5000,
        lapTimes = [\<lparr>lapNumber = 1, timeMs = 2000\<rparr>, \<lparr>lapNumber = 2, timeMs = 2000\<rparr>,
                    \<lparr>lapNumber = 3, timeMs = 1000\<rparr>],
        currentLap = 4\<rparr>,
       False)"
proof (intro conjI)
  show "index (test_checkpoints ! 0) = 0"
    by (simp add: test_checkpoints_def createCheckpoint_def)
  show "crossesCheckpoint (vec2 (- 10) 50) (vec2 110 50) (test_checkpoints ! 0)"
    by (rule cross_fixture(4))
  show "{1, 2} \<subseteq> checkpointsPassed progressAllPassed"
    by (simp add: progressAllPassed_def)
  show "currentLap timingLastLap \<ge> 3" by (simp add: timingLastLap_def)
  have l: "test_checkpoints = [test_checkpoints ! 0, test_checkpoints ! 1, test_checkpoints ! 2]"
    by (simp add: test_checkpoints_def)
  have i: "index (test_checkpoints ! 0) = 0" "index (test_checkpoints ! 1) = 1"
    by (simp_all add: test_checkpoints_def createCheckpoint_def)
  have len: "length test_checkpoints = 3" by (simp add: test_checkpoints_def)
  have upto: "[1..2::int] = [1, 2]" by (simp add: upto.simps)
  show "updateLapProgress (\<lambda>i. 5000) progressAllPassed timingLastLap test_checkpoints
        (vec2 (- 10) 50) (vec2 110 50) 3 =
      (\<lparr>lastCheckpointIndex = 1, checkpointsPassed = {1, 0}\<rparr>,
       \<lparr>raceStartTime = 0, lapStartTime = 5000,
        lapTimes = [\<lparr>lapNumber = 1, timeMs = 2000\<rparr>, \<lparr>lapNumber = 2, timeMs = 2000\<rparr>,
                    \<lparr>lapNumber = 3, timeMs = 1000\<rparr>],
        currentLap = 4\<rparr>,
       False)"
    unfolding updateLapProgress_def len
    apply (subst l)
    apply (simp add: cross_fixture(4,5,6) cross_fixture(5)[unfolded One_nat_def]
        processCheckpointCross_def i i(2)[unfolded One_nat_def] Let_def upto
        js_rem_def signed_modulo_int_def)
    apply (simp add: progressAllPassed_def timingLastLap_def)
    done
qed

text \<open>A crossing of a checkpoint of non-zero index never touches the timing, never
  removes a passed index, and always returns \<open>raceFinished = false\<close>.\<close>

lemma processCheckpointCross_nonzero_shape:
  assumes "index c \<noteq> 0"
  shows "fst (snd (processCheckpointCross now pr tm c n laps)) = tm"
    and "snd (snd (processCheckpointCross now pr tm c n laps)) = False"
    and "checkpointsPassed pr \<subseteq> checkpointsPassed (fst (processCheckpointCross now pr tm c n laps))"
  using assms by (auto simp add: processCheckpointCross_def Let_def)

text \<open>Hence over a run of checkpoints of non-zero index the loop keeps the timing, and
  its flag is \<open>false\<close> as soon as one of them is crossed.\<close>

lemma updateLapProgress_loop_nonzero:
  assumes "\<forall>c \<in> set cs. index c \<noteq> 0"
  shows "fst (snd (updateLapProgress_loop clock n oldPos newPos laps i cs (pr, tm, f))) = tm
       \<and> snd (snd (updateLapProgress_loop clock n oldPos newPos laps i cs (pr, tm, f)))
           = (if \<exists>c \<in> set cs. crossesCheckpoint oldPos newPos c then False else f)
       \<and> checkpointsPassed pr
           \<subseteq> checkpointsPassed (fst (updateLapProgress_loop clock n oldPos newPos laps i cs (pr, tm, f)))"
  using assms
proof (induction cs arbitrary: i pr f)
  case Nil
  then show ?case by simp
next
  case (Cons c cs)
  then have nz: "index c \<noteq> 0" and rest: "\<forall>c \<in> set cs. index c \<noteq> 0" by auto
  show ?case
  proof (cases "crossesCheckpoint oldPos newPos c")
    case False
    then show ?thesis using Cons.IH[OF rest, of "Suc i" pr f] by simp
  next
    case True
    obtain pr' tm' f' where r: "processCheckpointCross (clock i) pr tm c n laps = (pr', tm', f')"
      by (cases "processCheckpointCross (clock i) pr tm c n laps") auto
    from processCheckpointCross_nonzero_shape[OF nz, where now="clock i" and pr=pr and tm=tm and n=n and laps=laps] r
    have tm': "tm' = tm" and f': "f' = False" and sub: "checkpointsPassed pr \<subseteq> checkpointsPassed pr'"
      by simp_all
    show ?thesis using True Cons.IH[OF rest, of "Suc i" pr' False] sub
      by (auto simp add: r tm' f')
  qed
qed


text \<open>
  What \<^verbatim>\<open>updateLapProgress\<close> does on every tick that crosses the start/finish line with
  all other checkpoints passed, whatever else is crossed (the track having one checkpoint
  of index 0): the lap record, the new \<open>lapStartTime\<close> and the incremented \<open>currentLap\<close>
  are as the lap completion sets them; the returned flag is the lap completion's
  \<open>currentLap \<ge> totalLaps\<close> only when no later checkpoint of the list is crossed, and
  \<open>false\<close> otherwise; progress is the reset progress when no later checkpoint is crossed.
\<close>

lemma updateLapProgress_crossing_checkpoint0:
  assumes cps: "cps = pre @ [c0] @ post"
      and idx: "index c0 = 0"
      and only: "\<forall>c \<in> set pre \<union> set post. index c \<noteq> 0"
      and cross: "crossesCheckpoint oldPos newPos c0"
      and passed: "\<forall>i \<in> {1..int (length cps) - 1}. i \<in> checkpointsPassed progress"
  shows "fst (snd (updateLapProgress clock progress tm cps oldPos newPos laps)) =
           tm\<lparr>lapTimes := lapTimes tm @
                 [\<lparr>lapNumber = currentLap tm, timeMs = clock (length pre) - lapStartTime tm\<rparr>],
              lapStartTime := clock (length pre),
              currentLap := currentLap tm + 1\<rparr>"
    and "snd (snd (updateLapProgress clock progress tm cps oldPos newPos laps)) =
           (if \<exists>c \<in> set post. crossesCheckpoint oldPos newPos c then False
            else currentLap tm \<ge> laps)"
    and "\<forall>c \<in> set post. \<not> crossesCheckpoint oldPos newPos c \<Longrightarrow>
         fst (updateLapProgress clock progress tm cps oldPos newPos laps) =
           \<lparr>lastCheckpointIndex = 0, checkpointsPassed = {0}\<rparr>"
proof -
  let ?n = "int (length cps)"
  let ?tm' = "tm\<lparr>lapTimes := lapTimes tm @
                 [\<lparr>lapNumber = currentLap tm, timeMs = clock (length pre) - lapStartTime tm\<rparr>],
              lapStartTime := clock (length pre),
              currentLap := currentLap tm + 1\<rparr>"
  let ?p0 = "\<lparr>lastCheckpointIndex = 0, checkpointsPassed = {0}\<rparr>"
  have pre: "\<forall>c \<in> set pre. index c \<noteq> 0" and post: "\<forall>c \<in> set post. index c \<noteq> 0"
    using only by auto
  obtain p1 t1 f1 where l1:
    "updateLapProgress_loop clock ?n oldPos newPos laps 0 pre (progress, tm, False) = (p1, t1, f1)"
    by (cases "updateLapProgress_loop clock ?n oldPos newPos laps 0 pre (progress, tm, False)") auto
  from updateLapProgress_loop_nonzero[OF pre, of clock ?n oldPos newPos laps 0 progress tm False] l1
  have t1: "t1 = tm" and sub: "checkpointsPassed progress \<subseteq> checkpointsPassed p1"
    by simp_all
  have passed1: "\<forall>i \<in> {1..?n - 1}. i \<in> checkpointsPassed p1"
    using passed sub by blast
  have whole: "updateLapProgress clock progress tm cps oldPos newPos laps =
      updateLapProgress_loop clock ?n oldPos newPos laps (Suc (length pre)) post
        (?p0, ?tm', currentLap tm \<ge> laps)"
    unfolding updateLapProgress_def
    by (subst cps, subst updateLapProgress_loop_append)
      (simp add: l1 t1 cross complete_lap[OF idx passed1])
  from updateLapProgress_loop_nonzero[OF post, of clock ?n oldPos newPos laps "Suc (length pre)" ?p0 ?tm'
      "currentLap tm \<ge> laps"]
  show "fst (snd (updateLapProgress clock progress tm cps oldPos newPos laps)) = ?tm'"
    and "snd (snd (updateLapProgress clock progress tm cps oldPos newPos laps)) =
           (if \<exists>c \<in> set post. crossesCheckpoint oldPos newPos c then False
            else currentLap tm \<ge> laps)"
    unfolding whole by simp_all
  show "fst (updateLapProgress clock progress tm cps oldPos newPos laps) = ?p0"
    if "\<forall>c \<in> set post. \<not> crossesCheckpoint oldPos newPos c"
    unfolding whole by (simp add: updateLapProgress_loop_not_crossed[OF that])
qed

text \<open>While racing, the status after \<^verbatim>\<open>step\<close> is decided by that flag alone.\<close>

lemma step_racing_status:
  assumes "status (state gl) = Racing"
  shows "status (fst (step clock gl input)) =
     (if snd (snd (updateLapProgress clock (lapProgress (state gl)) (timing (state gl))
                 (checkpoints (track (state gl))) (position (car (state gl)))
                 (position (physics gl (car (state gl)) input (tickDuration gl)))
                 (totalLaps (state gl))))
      then Finished else Racing)"
  using assms by (simp add: step_def Let_def updateGameState_def split: prod.splits)

text \<open>
  C1. The claim: when the passed set contains every index \<open>1..N-1\<close> and the motion crosses
  checkpoint 0's line, \<^verbatim>\<open>updateLapProgress\<close> records the lap, resets progress and reports
  \<open>raceFinished = true\<close> exactly when the pre-increment \<open>currentLap\<close> is at least
  \<open>totalLaps\<close>. The code departs from it on the final lap of the test track when the
  motion \<open>(-10, 50) \<rightarrow> (110, 50)\<close> crosses checkpoints 0 and 1: the crossing of checkpoint 0
  by itself yields \<open>raceFinished = true\<close> (fifth conjunct), yet \<^verbatim>\<open>updateLapProgress\<close> returns
  \<open>false\<close> with progress \<open>{lastCheckpointIndex = 1, passed = {0, 1}}\<close>, because the loop
  replaces the flag by the result of the later crossing; \<^verbatim>\<open>step\<close> then leaves the status
  \<open>racing\<close>, while the motion that crosses checkpoint 0 only finishes the race.
\<close>

theorem updateLapProgress_finish_flag_lost:
  "index (test_checkpoints ! 0) = 0
   \<and> crossesCheckpoint (vec2 (- 10) 50) (vec2 110 50) (test_checkpoints ! 0)
   \<and> {1, 2} \<subseteq> checkpointsPassed progressAllPassed
   \<and> currentLap timingLastLap \<ge> 3
   \<and> snd (snd (processCheckpointCross 5000 progressAllPassed timingLastLap
                  (test_checkpoints ! 0) 3 3)) = True
   \<and> updateLapProgress (\<lambda>i. 5000) progressAllPassed timingLastLap test_checkpoints
        (vec2 (- 10) 50) (vec2 110 50) 3 =
      (\<lparr>lastCheckpointIndex = 1, checkpointsPassed = {1, 0}\<rparr>,
       \<lparr>raceStartTime = 0, lapStartTime = 5000,
        lapTimes = [\<lparr>lapNumber = 1, timeMs = 2000\<rparr>, \<lparr>lapNumber = 2, timeMs = 2000\<rparr>,
                    \<lparr>lapNumber = 3, timeMs = 1000\<rparr>],
        currentLap = 4\<rparr>,
       False)
   \<and> status (fst (step (\<lambda>i. 5000)
         (newGameLoop final_lap_state (Some (teleportEngine (vec2 110 50)))) INPUT_NONE)) = Racing
   \<and> status (fst (step (\<lambda>i. 5000)
         (newGameLoop final_lap_state (Some (teleportEngine (vec2 10 50)))) INPUT_NONE)) = Finished"
proof -
  note two = updateLapProgress_two_crossings
  have single: "snd (snd (processCheckpointCross 5000 progressAllPassed timingLastLap
                  (test_checkpoints ! 0) 3 3)) = True"
    by (simp add: processCheckpointCross_def Let_def fixture_defs upto.simps)
  have racing: "status (state (newGameLoop final_lap_state (Some (teleportEngine tgt)))) = Racing"
    for tgt by (simp add: newGameLoop_def final_lap_state_def)
  have far: "status (fst (step (\<lambda>i. 5000)
         (newGameLoop final_lap_state (Some (teleportEngine (vec2 110 50)))) INPUT_NONE)) = Racing"
    unfolding step_racing_status[OF racing]
    using two
    by (simp add: newGameLoop_def final_lap_state_def teleportEngine_def test_track_def
        createCarState_def)
  have near: "status (fst (step (\<lambda>i. 5000)
         (newGameLoop final_lap_state (Some (teleportEngine (vec2 10 50)))) INPUT_NONE)) = Finished"
    unfolding step_racing_status[OF racing]
    using updateLapProgress_final_lap_test
    by (simp add: newGameLoop_def final_lap_state_def teleportEngine_def test_track_def
        createCarState_def)
  show ?thesis using two single far near by simp
qed

section \<open>Properties of the game loop\<close>

lemma steps_not_racing:
  "status (state gl) \<noteq> Racing \<Longrightarrow> steps gl calls = gl"
proof (induction calls)
  case Nil
  then show ?case by simp
next
  case (Cons ci calls)
  obtain clock input where ci: "ci = (clock, input)" by (cases ci) auto
  from Cons show ?case unfolding ci by (simp add: step_def)
qed

text \<open>
  C3. When the status of the game state is not \<open>racing\<close> (that is \<open>countdown\<close> or
  \<open>finished\<close>), \<^verbatim>\<open>step\<close> returns the current state and leaves the game loop object as
  it was: no field of the state changes and no observer is notified. Hence any sequence
  of further ticks is a no-op, in particular once \<open>finished\<close> is reached.
\<close>

theorem step_not_racing_unchanged:
  assumes "status (state gl) \<noteq> Racing"
  shows "step clock gl input = (state gl, gl) \<and> steps gl calls = gl"
  using assms steps_not_racing by (simp add: step_def)

text \<open>A freshly created game (countdown) and a finished game do not move.\<close>

theorem step_not_racing_unchanged_witness:
  "status (state (newGameLoop (createInitialGameState 0 test_track) None)) \<noteq> Racing
   \<and> step (\<lambda>i. 1000) (newGameLoop (createInitialGameState 0 test_track) None)
        (createInputCommand 1 0 0)
      = (createInitialGameState 0 test_track,
         newGameLoop (createInitialGameState 0 test_track) None)
   \<and> status (state ((newGameLoop (createInitialGameState 0 test_track) None)
        \<lparr>state := (createInitialGameState 0 test_track)\<lparr>status := Finished\<rparr>\<rparr>)) \<noteq> Racing
   \<and> steps ((newGameLoop (createInitialGameState 0 test_track) None)
        \<lparr>state := (createInitialGameState 0 test_track)\<lparr>status := Finished\<rparr>\<rparr>)
        [(\<lambda>i. 1000, createInputCommand 1 0 0), (\<lambda>i. 2000, createInputCommand 0 1 1)]
      = (newGameLoop (createInitialGameState 0 test_track) None)
        \<lparr>state := (createInitialGameState 0 test_track)\<lparr>status := Finished\<rparr>\<rparr>"
proof -
  let ?g0 = "newGameLoop (createInitialGameState 0 test_track) None"
  let ?gF = "?g0\<lparr>state := (createInitialGameState 0 test_track)\<lparr>status := Finished\<rparr>\<rparr>"
  have h0: "status (state ?g0) \<noteq> Racing"
    by (simp add: newGameLoop_def createInitialGameState_def)
  have s0: "state ?g0 = createInitialGameState 0 test_track"
    by (simp add: newGameLoop_def)
  have hF: "status (state ?gF) \<noteq> Racing" by simp
  from step_not_racing_unchanged [OF h0, of "\<lambda>i. 1000" "createInputCommand 1 0 0" "[]"]
  have a: "step (\<lambda>i. 1000) ?g0 (createInputCommand 1 0 0) = (createInitialGameState 0 test_track, ?g0)"
    unfolding s0 by (rule conjunct1)
  from step_not_racing_unchanged [OF hF, of "\<lambda>i. 1000" "createInputCommand 1 0 0"
        "[(\<lambda>i. 1000, createInputCommand 1 0 0), (\<lambda>i. 2000, createInputCommand 0 1 1)]"]
  have b: "steps ?gF [(\<lambda>i. 1000, createInputCommand 1 0 0), (\<lambda>i. 2000, createInputCommand 0 1 1)] = ?gF"
    by (rule conjunct2)
  show ?thesis using h0 hF a b by (intro conjI)
qed

section \<open>Properties of the physics engine\<close>

lemma clampSpeed_range:
  "- r \<le> m \<Longrightarrow> - r \<le> clampSpeed s m r \<and> clampSpeed s m r \<le> m"
  by (simp add: clampSpeed_def)

lemma updateSpeed_range:
  assumes "- maxReverseSpeed cfg \<le> maxSpeed cfg"
  shows "- maxReverseSpeed cfg \<le> updateSpeed cfg s thr brk dt"
    and "updateSpeed cfg s thr brk dt \<le> maxSpeed cfg"
  using clampSpeed_range[OF assms] by (simp_all add: updateSpeed_def Let_def)

lemma updateSpeed_abs:
  assumes "- maxReverseSpeed cfg \<le> maxSpeed cfg"
  shows "\<bar>updateSpeed cfg s thr brk dt\<bar> \<le> max (maxSpeed cfg) (maxReverseSpeed cfg)"
  using updateSpeed_range[OF assms, of s thr brk dt] by (simp add: abs_le_iff max_def)

lemma scaled_heading_length:
  "sqrt (cos a * s * (cos a * s) + sin a * s * (sin a * s)) = \<bar>s\<bar>"
proof -
  have one: "sin a * sin a + cos a * cos a = 1"
    using sin_cos_squared_add[of a] by (simp only: power2_eq_square)
  have "cos a * s * (cos a * s) + sin a * s * (sin a * s)
      = (s * s) * (sin a * sin a + cos a * cos a)"
    by (simp only: distrib_left mult_ac add_ac)
  also have "\<dots> = s * s" by (simp only: one mult_1_right)
  finally show ?thesis by (simp only: real_sqrt_abs2)
qed

lemma update_velocity:
  "velocity (update cfg cr input dt) =
     scale (fromAngle (updateRotation cfg (rotation cr)
              (getSignedSpeed cr (fromAngle (rotation cr))) (steering input) dt))
       (updateSpeed cfg (getSignedSpeed cr (fromAngle (rotation cr)))
          (throttle input) (brake input) dt)"
  by (simp add: update_def Let_def updateCarState_def)

lemma update_speed:
  "getCarSpeed (update cfg cr input dt) =
     \<bar>updateSpeed cfg (getSignedSpeed cr (fromAngle (rotation cr)))
        (throttle input) (brake input) dt\<bar>"
  unfolding getCarSpeed_def update_velocity
  by (simp add: scale_def fromAngle_def vec2_def scaled_heading_length)

lemma getCarSpeed_nonneg: "0 \<le> getCarSpeed c"
  by (simp add: getCarSpeed_def)

lemma getSignedSpeed_abs: "\<bar>getSignedSpeed c fwd\<bar> \<le> getCarSpeed c"
  using getCarSpeed_nonneg[of c] by (simp add: getSignedSpeed_def Let_def)

lemma trajectory_member:
  "c \<in> set (trajectory cfg dt cr inputs) \<Longrightarrow> \<exists>c0 i. c = update cfg c0 i dt"
proof (induction inputs arbitrary: cr)
  case Nil
  then show ?case by simp
next
  case (Cons i inputs)
  then show ?case by (auto simp add: Let_def)
qed

text \<open>
  C5. For a configuration whose speed interval is not empty
  (\<open>- maxReverseSpeed \<le> maxSpeed\<close>, as for any two non-negative maxima), the signed speed
  computed by \<^verbatim>\<open>update\<close> is clamped into \<open>[- maxReverseSpeed, maxSpeed]\<close> before the
  velocity is recomputed; the velocity magnitude of the state produced by \<^verbatim>\<open>update\<close> is
  the absolute value of that speed, hence at most \<open>max maxSpeed maxReverseSpeed\<close>; and in
  every state reached by any sequence of inputs both the velocity magnitude and the
  absolute signed speed stay within that bound.
\<close>

theorem speed_bound:
  assumes wf: "- maxReverseSpeed cfg \<le> maxSpeed cfg"
  shows "- maxReverseSpeed cfg \<le> updateSpeed cfg s thr brk dt
       \<and> updateSpeed cfg s thr brk dt \<le> maxSpeed cfg
       \<and> getCarSpeed (update cfg cr input dt) =
           \<bar>updateSpeed cfg (getSignedSpeed cr (fromAngle (rotation cr)))
              (throttle input) (brake input) dt\<bar>
       \<and> getCarSpeed (update cfg cr input dt) \<le> max (maxSpeed cfg) (maxReverseSpeed cfg)
       \<and> (\<forall>c \<in> set (trajectory cfg dt cr inputs).
             getCarSpeed c \<le> max (maxSpeed cfg) (maxReverseSpeed cfg)
             \<and> \<bar>getSignedSpeed c (fromAngle (rotation c))\<bar>
                 \<le> max (maxSpeed cfg) (maxReverseSpeed cfg))"
proof (intro conjI ballI)
  show "- maxReverseSpeed cfg \<le> updateSpeed cfg s thr brk dt"
    by (rule updateSpeed_range(1)[OF wf])
  show "updateSpeed cfg s thr brk dt \<le> maxSpeed cfg"
    by (rule updateSpeed_range(2)[OF wf])
  show "getCarSpeed (update cfg cr input dt) =
           \<bar>updateSpeed cfg (getSignedSpeed cr (fromAngle (rotation cr)))
              (throttle input) (brake input) dt\<bar>"
    by (rule update_speed)
  show b: "getCarSpeed (update cfg c0 i dt) \<le> max (maxSpeed cfg) (maxReverseSpeed cfg)"
    for c0 i
    unfolding update_speed by (rule updateSpeed_abs[OF wf])
  fix c assume "c \<in> set (trajectory cfg dt cr inputs)"
  then obtain c0 i where c: "c = update cfg c0 i dt" using trajectory_member by blast
  show "getCarSpeed c \<le> max (maxSpeed cfg) (maxReverseSpeed cfg)"
    unfolding c by (rule b)
  then show "\<bar>getSignedSpeed c (fromAngle (rotation c))\<bar>
                 \<le> max (maxSpeed cfg) (maxReverseSpeed cfg)"
    using getSignedSpeed_abs[of c "fromAngle (rotation c)"] by linarith
qed


text \<open>Full throttle from rest and at top speed, with the configuration of the tests.\<close>

theorem speed_bound_witness:
  "- maxReverseSpeed testConfig \<le> maxSpeed testConfig
   \<and> updateSpeed testConfig 100 1 0 (1 / 60) = 100
   \<and> updateSpeed testConfig (- 50) 0 1 (1 / 60) \<le> maxSpeed testConfig
   \<and> getCarSpeed (update testConfig (createCarState (vec2 100 100) 0)
         (createInputCommand 1 0 0) (1 / 60)) = 5 / 6
   \<and> getCarSpeed (update testConfig (createCarState (vec2 100 100) 0)
         (createInputCommand 1 0 0) (1 / 60)) \<le> max (maxSpeed testConfig) (maxReverseSpeed testConfig)"
proof -
  have wf: "- maxReverseSpeed testConfig \<le> maxSpeed testConfig"
    by (simp add: testConfig_def)
  note t = speed_bound [OF wf, of "- 50" 0 1 "1 / 60" "createCarState (vec2 100 100) 0"
      "createInputCommand 1 0 0" "[]"]
  have a: "updateSpeed testConfig 100 1 0 (1 / 60) = 100"
    by (simp add: updateSpeed_def Let_def calculateThrottleEffect_def calculateBrakeEffect_def
        calculateFrictionEffect_def clampSpeed_def testConfig_def)
  have z: "getSignedSpeed (createCarState (vec2 100 100) 0)
      (fromAngle (rotation (createCarState (vec2 100 100) 0))) = 0"
    by (simp add: getSignedSpeed_def getCarSpeed_def createCarState_def VEC2_ZERO_def vec2_def
        Let_def)
  have b: "updateSpeed testConfig 0 (throttle (createInputCommand 1 0 0))
      (brake (createInputCommand 1 0 0)) (1 / 60) = 5 / 6"
    by (simp add: updateSpeed_def Let_def calculateThrottleEffect_def calculateBrakeEffect_def
        calculateFrictionEffect_def clampSpeed_def testConfig_def createInputCommand_def)
  from t have "getCarSpeed (update testConfig (createCarState (vec2 100 100) 0)
         (createInputCommand 1 0 0) (1 / 60)) = 5 / 6"
    unfolding z b by simp
  then show ?thesis using wf a t by simp
qed

text \<open>
  C9 (as amended). The signed current speed used by \<^verbatim>\<open>update\<close> is 0 when the velocity
  magnitude is below 0.001; otherwise it is the velocity magnitude when
  \<open>dot(velocity, forward) \<ge> 0\<close> and its negation when \<open>dot(velocity, forward) < 0\<close>.
  The second conjunct shows where \<^verbatim>\<open>update\<close> uses it.
\<close>

theorem getSignedSpeed_dead_zone:
  "getSignedSpeed cr (fromAngle (rotation cr)) =
     (let magnitude = sqrt ((x (velocity cr))\<^sup>2 + (y (velocity cr))\<^sup>2)
      in if magnitude < 1 / 1000 then 0
         else if dot (velocity cr) (fromAngle (rotation cr)) \<ge> 0 then magnitude
         else - magnitude)
   \<and> velocity (update cfg cr input dt) =
     scale (fromAngle (updateRotation cfg (rotation cr)
              (getSignedSpeed cr (fromAngle (rotation cr))) (steering input) dt))
       (updateSpeed cfg (getSignedSpeed cr (fromAngle (rotation cr)))
          (throttle input) (brake input) dt)"
  using update_velocity
  by (simp add: getSignedSpeed_def getCarSpeed_def Let_def power2_eq_square)


text \<open>
  The claim C9 as first stated (the signed speed is the velocity magnitude whenever the
  velocity is not anti-aligned with forward) fails below the threshold: a car moving
  forward at 0.0005 has signed speed 0.
\<close>

theorem getSignedSpeed_small_velocity_counterexample:
  "dot (velocity slow_car) (fromAngle (rotation slow_car)) \<ge> 0
   \<and> getCarSpeed slow_car = 1 / 2000
   \<and> getSignedSpeed slow_car (fromAngle (rotation slow_car)) = 0
   \<and> getSignedSpeed slow_car (fromAngle (rotation slow_car)) \<noteq> getCarSpeed slow_car"
proof -
  have sp: "getCarSpeed slow_car = 1 / 2000"
  proof -
    have "sqrt ((1 / 2000) * (1 / 2000)) = \<bar>1 / 2000 :: real\<bar>" by (rule real_sqrt_abs2)
    then show ?thesis by (simp add: getCarSpeed_def slow_car_def vec2_def)
  qed
  have ss: "getSignedSpeed slow_car (fromAngle (rotation slow_car)) = 0"
    by (simp add: sp getSignedSpeed_def Let_def)
  have d: "dot (velocity slow_car) (fromAngle (rotation slow_car)) \<ge> 0"
    by (simp add: dot_def vec2_def fromAngle_def slow_car_def)
  show ?thesis using sp ss d by simp
qed


section \<open>Properties of the rectangle test\<close>

lemma rect_loop_ex:
  "rectangleIntersectsLine_loop corners line is =
     (\<exists>i \<in> set is. lineSegmentIntersection
         \<lparr>start = corners ! i, end' = corners ! ((i + 1) mod 4)\<rparr> line \<noteq> None)"
  by (induction "is") (auto simp add: Let_def)

lemma upt4: "[0..<4] = [0, 1, 2, 3]"
  by (simp add: upt_rec)

lemma pip4:
  "pointInPolygon pt [c0, c1, c2, c3] =
     (let k0 = (cross (subtract c1 c0) (subtract pt c0) > 0);
          k1 = (cross (subtract c2 c1) (subtract pt c1) > 0);
          k2 = (cross (subtract c3 c2) (subtract pt c2) > 0);
          k3 = (cross (subtract c0 c3) (subtract pt c3) > 0)
      in k1 = k0 \<and> k2 = k0 \<and> k3 = k0)"
  by (simp add: pointInPolygon_def upt4 Let_def)

lemma corners_eq:
  "getRotatedRectCorners center w h rot =
     [\<lparr>x = x center + (- (w / 2)) * cos rot - (- (h / 2)) * sin rot,
       y = y center + (- (w / 2)) * sin rot + (- (h / 2)) * cos rot\<rparr>,
      \<lparr>x = x center + (w / 2) * cos rot - (- (h / 2)) * sin rot,
       y = y center + (w / 2) * sin rot + (- (h / 2)) * cos rot\<rparr>,
      \<lparr>x = x center + (w / 2) * cos rot - (h / 2) * sin rot,
       y = y center + (w / 2) * sin rot + (h / 2) * cos rot\<rparr>,
      \<lparr>x = x center + (- (w / 2)) * cos rot - (h / 2) * sin rot,
       y = y center + (- (w / 2)) * sin rot + (h / 2) * cos rot\<rparr>]"
  by (simp add: getRotatedRectCorners_def Let_def)

text \<open>The cross products of the four edges with the vector to the point, in the
  rectangle's local coordinates.\<close>

lemma edge_crosses:
  fixes c s w h dx dy :: real
  assumes one: "s * s + c * c = 1"
  defines "lx \<equiv> dx * c + dy * s" and "ly \<equiv> dy * c - dx * s"
  shows "(w * c) * (dy + (w / 2) * s + (h / 2) * c) - (w * s) * (dx + (w / 2) * c - (h / 2) * s)
           = w * (ly + h / 2)"
    and "(- h * s) * (dy - (w / 2) * s + (h / 2) * c) - (h * c) * (dx - (w / 2) * c - (h / 2) * s)
           = h * (w / 2 - lx)"
    and "(- w * c) * (dy - (w / 2) * s - (h / 2) * c) - (- w * s) * (dx - (w / 2) * c + (h / 2) * s)
           = w * (h / 2 - ly)"
    and "(h * s) * (dy + (w / 2) * s - (h / 2) * c) - (- h * c) * (dx + (w / 2) * c + (h / 2) * s)
           = h * (lx + w / 2)"
proof -
  have e1: "(w * c) * (dy + (w / 2) * s + (h / 2) * c) - (w * s) * (dx + (w / 2) * c - (h / 2) * s)
      = w * (dy * c - dx * s) + w * (h / 2) * (s * s + c * c)"
    by (simp add: algebra_simps)
  have e2: "(- h * s) * (dy - (w / 2) * s + (h / 2) * c) - (h * c) * (dx - (w / 2) * c - (h / 2) * s)
      = h * (w / 2) * (s * s + c * c) - h * (dx * c + dy * s)"
    by (simp add: algebra_simps)
  have e3: "(- w * c) * (dy - (w / 2) * s - (h / 2) * c) - (- w * s) * (dx - (w / 2) * c + (h / 2) * s)
      = w * (h / 2) * (s * s + c * c) - w * (dy * c - dx * s)"
    by (simp add: algebra_simps)
  have e4: "(h * s) * (dy + (w / 2) * s - (h / 2) * c) - (- h * c) * (dx + (w / 2) * c + (h / 2) * s)
      = h * (dx * c + dy * s) + h * (w / 2) * (s * s + c * c)"
    by (simp add: algebra_simps)
  show "(w * c) * (dy + (w / 2) * s + (h / 2) * c) - (w * s) * (dx + (w / 2) * c - (h / 2) * s)
           = w * (ly + h / 2)"
    unfolding e1 one lx_def ly_def by (simp add: algebra_simps)
  show "(- h * s) * (dy - (w / 2) * s + (h / 2) * c) - (h * c) * (dx - (w / 2) * c - (h / 2) * s)
           = h * (w / 2 - lx)"
    unfolding e2 one lx_def ly_def by (simp add: algebra_simps)
  show "(- w * c) * (dy - (w / 2) * s - (h / 2) * c) - (- w * s) * (dx - (w / 2) * c + (h / 2) * s)
           = w * (h / 2 - ly)"
    unfolding e3 one lx_def ly_def by (simp add: algebra_simps)
  show "(h * s) * (dy + (w / 2) * s - (h / 2) * c) - (- h * c) * (dx + (w / 2) * c + (h / 2) * s)
           = h * (lx + w / 2)"
    unfolding e4 one lx_def ly_def by (simp add: algebra_simps)
qed


lemma pointInPolygon_rect:
  assumes w: "0 < w" and h: "0 < h"
  shows "pointInPolygon pt (getRotatedRectCorners center w h rot) =
     (\<bar>(x pt - x center) * cos rot + (y pt - y center) * sin rot\<bar> < w / 2
      \<and> \<bar>(y pt - y center) * cos rot - (x pt - x center) * sin rot\<bar> < h / 2)"
proof -
  define c s dx dy where "c = cos rot" and "s = sin rot"
    and "dx = x pt - x center" and "dy = y pt - y center"
  define lx ly where "lx = dx * c + dy * s" and "ly = dy * c - dx * s"
  define c0 c1 c2 c3 where
    "c0 = \<lparr>x = x center + (- (w / 2)) * c - (- (h / 2)) * s,
           y = y center + (- (w / 2)) * s + (- (h / 2)) * c\<rparr>" and
    "c1 = \<lparr>x = x center + (w / 2) * c - (- (h / 2)) * s,
           y = y center + (w / 2) * s + (- (h / 2)) * c\<rparr>" and
    "c2 = \<lparr>x = x center + (w / 2) * c - (h / 2) * s,
           y = y center + (w / 2) * s + (h / 2) * c\<rparr>" and
    "c3 = \<lparr>x = x center + (- (w / 2)) * c - (h / 2) * s,
           y = y center + (- (w / 2)) * s + (h / 2) * c\<rparr>"
  have one: "s * s + c * c = 1"
    unfolding c_def s_def using sin_cos_squared_add[of rot] by (simp only: power2_eq_square)
  note ec = edge_crosses[OF one, where w=w and h=h and dx=dx and dy=dy]
  have k0: "cross (subtract c1 c0) (subtract pt c0) = w * (ly + h / 2)"
  proof -
    have "cross (subtract c1 c0) (subtract pt c0)
        = (w * c) * (dy + (w / 2) * s + (h / 2) * c) - (w * s) * (dx + (w / 2) * c - (h / 2) * s)"
      by (simp add: cross_def subtract_def vec2_def c0_def c1_def dx_def dy_def algebra_simps)
    then show ?thesis unfolding lx_def ly_def by (simp only: ec)
  qed
  have k1: "cross (subtract c2 c1) (subtract pt c1) = h * (w / 2 - lx)"
  proof -
    have "cross (subtract c2 c1) (subtract pt c1)
        = (- h * s) * (dy - (w / 2) * s + (h / 2) * c) - (h * c) * (dx - (w / 2) * c - (h / 2) * s)"
      by (simp add: cross_def subtract_def vec2_def c1_def c2_def dx_def dy_def algebra_simps)
    then show ?thesis unfolding lx_def ly_def by (simp only: ec)
  qed
  have k2: "cross (subtract c3 c2) (subtract pt c2) = w * (h / 2 - ly)"
  proof -
    have "cross (subtract c3 c2) (subtract pt c2)
        = (- w * c) * (dy - (w / 2) * s - (h / 2) * c) - (- w * s) * (dx - (w / 2) * c + (h / 2) * s)"
      by (simp add: cross_def subtract_def vec2_def c2_def c3_def dx_def dy_def algebra_simps)
    then show ?thesis unfolding lx_def ly_def by (simp only: ec)
  qed
  have k3: "cross (subtract c0 c3) (subtract pt c3) = h * (lx + w / 2)"
  proof -
    have "cross (subtract c0 c3) (subtract pt c3)
        = (h * s) * (dy + (w / 2) * s - (h / 2) * c) - (- h * c) * (dx + (w / 2) * c + (h / 2) * s)"
      by (simp add: cross_def subtract_def vec2_def c0_def c3_def dx_def dy_def algebra_simps)
    then show ?thesis unfolding lx_def ly_def by (simp only: ec)
  qed
  have corners: "getRotatedRectCorners center w h rot = [c0, c1, c2, c3]"
    unfolding corners_eq c0_def c1_def c2_def c3_def c_def s_def by (rule refl)
  have p0: "(0 < w * (ly + h / 2)) = (- (h / 2) < ly)" using w by (auto simp add: zero_less_mult_iff)
  have p1: "(0 < h * (w / 2 - lx)) = (lx < w / 2)" using h by (auto simp add: zero_less_mult_iff)
  have p2: "(0 < w * (h / 2 - ly)) = (ly < h / 2)" using w by (auto simp add: zero_less_mult_iff)
  have p3: "(0 < h * (lx + w / 2)) = (- (w / 2) < lx)" using h by (auto simp add: zero_less_mult_iff)
  have "pointInPolygon pt (getRotatedRectCorners center w h rot) =
      (((lx < w / 2) = (- (h / 2) < ly)) \<and> ((ly < h / 2) = (- (h / 2) < ly))
        \<and> ((- (w / 2) < lx) = (- (h / 2) < ly)))"
    unfolding corners pip4 Let_def k0 k1 k2 k3 p0 p1 p2 p3 by (rule refl)
  also have "\<dots> = (\<bar>lx\<bar> < w / 2 \<and> \<bar>ly\<bar> < h / 2)"
    using w h by (auto simp add: abs_less_iff)
  finally show ?thesis
    unfolding lx_def ly_def dx_def dy_def c_def s_def .
qed


lemma rectangleIntersectsLine_iff:
  "rectangleIntersectsLine center w h rot line =
     ((\<exists>i<4. lineSegmentIntersection
          \<lparr>start = getRotatedRectCorners center w h rot ! i,
           end' = getRotatedRectCorners center w h rot ! ((i + 1) mod 4)\<rparr> line \<noteq> None)
      \<or> pointInPolygon (start line) (getRotatedRectCorners center w h rot))"
  by (auto simp add: rectangleIntersectsLine_def Let_def rect_loop_ex)

lemma unit_corners:
  "getRotatedRectCorners (vec2 0 0) 2 2 0 =
     [\<lparr>x = - 1, y = - 1\<rparr>, \<lparr>x = 1, y = - 1\<rparr>, \<lparr>x = 1, y = 1\<rparr>, \<lparr>x = - 1, y = 1\<rparr>]"
  by (simp add: getRotatedRectCorners_def Let_def vec2_def)

lemma asym_out_in:
  "\<not> rectangleIntersectsLine (vec2 0 0) 2 2 0
        \<lparr>start = vec2 (1 + 1 / 10 ^ 11) 0, end' = vec2 (1 - 1 / 10 ^ 11) 0\<rparr>"
  unfolding rectangleIntersectsLine_def Let_def unit_corners upt4
  by (simp add: lineSegmentIntersection_def pip4 Let_def cross_def subtract_def vec2_def)

lemma asym_in_out:
  "rectangleIntersectsLine (vec2 0 0) 2 2 0
        \<lparr>start = vec2 (1 - 1 / 10 ^ 11) 0, end' = vec2 (1 + 1 / 10 ^ 11) 0\<rparr>"
  unfolding rectangleIntersectsLine_def Let_def unit_corners upt4
  by (simp add: lineSegmentIntersection_def pip4 Let_def cross_def subtract_def vec2_def)

text \<open>
  C8. \<^verbatim>\<open>rectangleIntersectsLine\<close> is true exactly when the segment intersects one of
  the four rectangle edges or the containment test \<^verbatim>\<open>pointInPolygon\<close> accepts the
  segment's start point; for a rectangle of positive width and height that test is
  exactly "the start point lies strictly inside the rotated rectangle" (second conjunct).
  The end point is not tested: a segment that starts just outside and ends inside, too
  short for any edge intersection to pass the parallel threshold, gives false, while the
  reversed segment gives true (third and fourth conjuncts).
\<close>

theorem rectangleIntersectsLine_edges_or_start:
  "rectangleIntersectsLine center w h rot line =
     ((\<exists>i<4. lineSegmentIntersection
          \<lparr>start = getRotatedRectCorners center w h rot ! i,
           end' = getRotatedRectCorners center w h rot ! ((i + 1) mod 4)\<rparr> line \<noteq> None)
      \<or> pointInPolygon (start line) (getRotatedRectCorners center w h rot))
   \<and> (0 < w \<and> 0 < h \<longrightarrow>
        pointInPolygon (start line) (getRotatedRectCorners center w h rot) =
          (\<bar>(x (start line) - x center) * cos rot + (y (start line) - y center) * sin rot\<bar> < w / 2
           \<and> \<bar>(y (start line) - y center) * cos rot - (x (start line) - x center) * sin rot\<bar> < h / 2))
   \<and> \<not> rectangleIntersectsLine (vec2 0 0) 2 2 0
        \<lparr>start = vec2 (1 + 1 / 10 ^ 11) 0, end' = vec2 (1 - 1 / 10 ^ 11) 0\<rparr>
   \<and> rectangleIntersectsLine (vec2 0 0) 2 2 0
        \<lparr>start = vec2 (1 - 1 / 10 ^ 11) 0, end' = vec2 (1 + 1 / 10 ^ 11) 0\<rparr>"
  using rectangleIntersectsLine_iff pointInPolygon_rect asym_out_in asym_in_out
  by blast

text \<open>A segment inside the square of side 2 around the origin.\<close>

theorem rectangleIntersectsLine_edges_or_start_witness:
  "(0::real) < 2
   \<and> pointInPolygon (vec2 (1 / 2) 0) (getRotatedRectCorners (vec2 0 0) 2 2 0)
   \<and> rectangleIntersectsLine (vec2 0 0) 2 2 0 \<lparr>start = vec2 (1 / 2) 0, end' = vec2 (3 / 4) 0\<rparr>"
proof -
  let ?L = "\<lparr>start = vec2 (1 / 2) 0, end' = vec2 (3 / 4) 0\<rparr>"
  note t = rectangleIntersectsLine_edges_or_start [of "vec2 0 0" 2 2 0 ?L]
  have pos: "(0::real) < 2 \<and> (0::real) < 2" by simp
  from t have "pointInPolygon (start ?L) (getRotatedRectCorners (vec2 0 0) 2 2 0) =
      (\<bar>(x (start ?L) - x (vec2 0 0)) * cos 0 + (y (start ?L) - y (vec2 0 0)) * sin 0\<bar> < 2 / 2
       \<and> \<bar>(y (start ?L) - y (vec2 0 0)) * cos 0 - (x (start ?L) - x (vec2 0 0)) * sin 0\<bar> < 2 / 2)"
    using pos by blast
  then have inside: "pointInPolygon (vec2 (1 / 2) 0) (getRotatedRectCorners (vec2 0 0) 2 2 0)"
    by (simp add: vec2_def)
  from t have "rectangleIntersectsLine (vec2 0 0) 2 2 0 ?L =
     ((\<exists>i<4. lineSegmentIntersection
          \<lparr>start = getRotatedRectCorners (vec2 0 0) 2 2 0 ! i,
           end' = getRotatedRectCorners (vec2 0 0) 2 2 0 ! ((i + 1) mod 4)\<rparr> ?L \<noteq> None)
      \<or> pointInPolygon (start ?L) (getRotatedRectCorners (vec2 0 0) 2 2 0))"
    by blast
  then have "rectangleIntersectsLine (vec2 0 0) 2 2 0 ?L" using inside by simp
  then show ?thesis using inside by simp
qed

end
